theory Spec2Isabelle
  imports Main "HOL-Library.Word"
begin

section \<open>The FMTP protocol header and constants (protocol/fmtp.h)\<close>

type_synonym byte = "8 word"
type_synonym u16 = "16 word"
type_synonym u32 = "32 word"

text \<open>
  \<^verbatim>\<open>typedef struct FmtpHeader { u_int16_t src_port; u_int16_t dest_port;
  u_int32_t session_id; u_int32_t seq_number; u_int32_t data_len; u_int32_t flags; }\<close>
  The comment on \<open>session_id\<close> says that it is the file (product) identifier and the
  comment on \<open>seq_number\<close> that it is the block number within a file.
\<close>

record FmtpHeader =
  src_port :: u16
  dest_port :: u16
  session_id :: u32
  seq_number :: u32
  data_len :: u32
  flags :: u32

text \<open>
  The members of the struct in declaration order, each with its size in bytes
  (\<open>u_int16_t\<close> is 2 bytes, \<open>u_int32_t\<close> is 4 bytes).
\<close>

definition FmtpHeader_members :: "(string \<times> nat) list" where
  "FmtpHeader_members =
     [(''src_port'', 2), (''dest_port'', 2), (''session_id'', 4),
      (''seq_number'', 4), (''data_len'', 4), (''flags'', 4)]"

text \<open>
  \<open>sizeof\<close> of a struct of scalar members: every member is placed at the next offset
  that is a multiple of its own size, and the struct is padded to a multiple of its
  largest member.
\<close>

definition align_up :: "nat \<Rightarrow> nat \<Rightarrow> nat" where
  "align_up off a = ((off + a - 1) div a) * a"

fun member_offsets :: "nat \<Rightarrow> (string \<times> nat) list \<Rightarrow> (string \<times> nat \<times> nat) list" where
  "member_offsets off [] = []"
| "member_offsets off ((name, sz) # ms) =
     (name, align_up off sz, sz) # member_offsets (align_up off sz + sz) ms"

fun struct_end :: "nat \<Rightarrow> (string \<times> nat) list \<Rightarrow> nat" where
  "struct_end off [] = off"
| "struct_end off ((name, sz) # ms) = struct_end (align_up off sz + sz) ms"

definition sizeof_struct :: "(string \<times> nat) list \<Rightarrow> nat" where
  "sizeof_struct ms = align_up (struct_end 0 ms) (foldr max (map snd ms) 1)"

definition sizeof_FMTP_HEADER :: nat where
  "sizeof_FMTP_HEADER = sizeof_struct FmtpHeader_members"

text \<open>The header flags of fmtp.h, each a \<open>const u_int32_t\<close>.\<close>

definition FMTP_DATA :: u32 where "FMTP_DATA = 0x00000000"
definition FMTP_BOF :: u32 where "FMTP_BOF = 0x00000001"
definition FMTP_EOF :: u32 where "FMTP_EOF = 0x00000002"
definition FMTP_SENDER_MSG_EXP :: u32 where "FMTP_SENDER_MSG_EXP = 0x00000004"
definition FMTP_RETRANS_REQ :: u32 where "FMTP_RETRANS_REQ = 0x00000008"
definition FMTP_RETRANS_DATA :: u32 where "FMTP_RETRANS_DATA = 0x00000010"
definition FMTP_RETRANS_END :: u32 where "FMTP_RETRANS_END = 0x00000020"
definition FMTP_RETRANS_TIMEOUT :: u32 where "FMTP_RETRANS_TIMEOUT = 0x00000040"
definition FMTP_BOF_REQ :: u32 where "FMTP_BOF_REQ = 0x00000080"
definition FMTP_HISTORY_STATISTICS :: u32 where "FMTP_HISTORY_STATISTICS = 0x00000100"


text \<open>
  \<^verbatim>\<open>const static int FMTP_PACKET_LEN = 1460;\<close>
  \<^verbatim>\<open>const static int FMTP_HLEN = sizeof(FMTP_HEADER);\<close>
  \<^verbatim>\<open>const static int FMTP_DATA_LEN = FMTP_PACKET_LEN - sizeof(FMTP_HEADER);\<close>
  The comment above them: the maximum FMTP packet length is forced to 1460 bytes.
\<close>

definition FMTP_PACKET_LEN :: int where
  "FMTP_PACKET_LEN = 1460"

definition FMTP_HLEN :: int where
  "FMTP_HLEN = int sizeof_FMTP_HEADER"

definition FMTP_DATA_LEN :: int where
  "FMTP_DATA_LEN = FMTP_PACKET_LEN - int sizeof_FMTP_HEADER"

text \<open>The length in bytes of a packet made of one header and \<open>n\<close> bytes of payload.\<close>

definition packet_len :: "nat \<Rightarrow> int" where
  "packet_len n = FMTP_HLEN + int n"

text \<open>
  The parameters for FMTP over UDP:
  \<^verbatim>\<open>static const int UDP_FMTP_PACKET_LEN = 1460;\<close>
  \<^verbatim>\<open>static const int UDP_FMTP_HLEN = sizeof(FMTP_HEADER);\<close>
  \<^verbatim>\<open>static const int UDP_FMTP_DATA_LEN = 1200 - sizeof(FMTP_HEADER);\<close>
\<close>

definition UDP_FMTP_PACKET_LEN :: int where
  "UDP_FMTP_PACKET_LEN = 1460"

definition UDP_FMTP_HLEN :: int where
  "UDP_FMTP_HLEN = int sizeof_FMTP_HEADER"

definition UDP_FMTP_DATA_LEN :: int where
  "UDP_FMTP_DATA_LEN = 1200 - int sizeof_FMTP_HEADER"

section \<open>Construction of the receiver (fmtpRecvv3.h)\<close>

text \<open>
  \<^verbatim>\<open>fmtpRecvv3(const std::string tcpAddr, const unsigned short tcpPort,
             const std::string mcastAddr, const unsigned short mcastPort,
             RecvProxy* notifier = NULL, const std::string ifAddr = "0.0.0.0");\<close>
  The parameters of the constructor after binding. A \<open>RecvProxy*\<close> is \<open>None\<close> for
  \<open>NULL\<close> and \<open>Some a\<close> for the object at address \<open>a\<close>.
\<close>

record ctor_params =
  p_tcpAddr :: string
  p_tcpPort :: u16
  p_mcastAddr :: string
  p_mcastPort :: u16
  p_notifier :: "nat option"
  p_ifAddr :: string

text \<open>An argument written at a call of the constructor.\<close>

datatype ctor_arg = StrArg string | PortArg u16 | ProxyArg "nat option"

text \<open>
  Binding of the arguments of a call to the parameters of the declaration: arguments
  are positional, a trailing parameter that has a default may be left out, and a call
  that matches no such prefix is ill-formed (\<open>None\<close>).
\<close>

fun fmtpRecvv3_ctor :: "ctor_arg list \<Rightarrow> ctor_params option" where
  "fmtpRecvv3_ctor [StrArg ta, PortArg tp, StrArg ma, PortArg mp] =
     Some \<lparr>p_tcpAddr = ta, p_tcpPort = tp, p_mcastAddr = ma, p_mcastPort = mp,
           p_notifier = None, p_ifAddr = ''0.0.0.0''\<rparr>"
| "fmtpRecvv3_ctor [StrArg ta, PortArg tp, StrArg ma, PortArg mp, ProxyArg n] =
     Some \<lparr>p_tcpAddr = ta, p_tcpPort = tp, p_mcastAddr = ma, p_mcastPort = mp,
           p_notifier = n, p_ifAddr = ''0.0.0.0''\<rparr>"
| "fmtpRecvv3_ctor [StrArg ta, PortArg tp, StrArg ma, PortArg mp, ProxyArg n, StrArg ia] =
     Some \<lparr>p_tcpAddr = ta, p_tcpPort = tp, p_mcastAddr = ma, p_mcastPort = mp,
           p_notifier = n, p_ifAddr = ia\<rparr>"
| "fmtpRecvv3_ctor _ = None"

section \<open>The state of the receiver (fmtpRecvv3.h)\<close>

text \<open>
  \<^verbatim>\<open>struct ProdTracker { uint32_t prodsize; void* prodptr; uint32_t seqnum;
  uint16_t paylen; uint32_t numRetrans; };\<close>
  The pointer \<open>prodptr\<close> is modelled by what it points to: \<open>None\<close> is the null pointer,
  \<open>Some buf\<close> the product buffer with its present content.
\<close>

record ProdTracker =
  prodsize :: u32
  prodptr :: "byte list option"
  seqnum :: u32
  paylen :: u16
  numRetrans :: u32

text \<open>
  Modelled from the spec: the received-segment bitmap of a Tracker entry (section 3,
  "one bit per expected segment") is missing from the struct in the sources; the entry
  of the model is the struct extended by it.
\<close>

record Entry = ProdTracker +
  received_bitmap :: "bool list"

text \<open>
  Modelled from the spec: the element type \<open>INLReqMsg\<close> of the request queue is not
  declared in the sources; its four kinds are those of section 4.B (a data request carries
  the product index, the offset and the length).
\<close>

datatype INLReqMsg = BOP_REQ u32 | DATA_REQ u32 u32 u16 | EOP_REQ u32 | RETX_END u32

text \<open>
  Modelled from the spec: the parsed BOP message, whose type is not declared in the
  sources. Section 4.A allocates the entry "using prodsize and payload_len from the BOP
  payload"; the metadata is opaque.
\<close>

record BOPMsg =
  bop_prodsize :: u32
  bop_paylen :: u16
  bop_metadata :: "byte list"

text \<open>
  Modelled from the spec: the collaborators, which the sources leave out. They are
  parameters of the model: the parser of a BOP payload (\<open>None\<close> when the payload is too
  small) and the notifier of the receiving application (class \<open>RecvProxy\<close>), which
  accepts a product (\<open>True\<close>: a buffer is provided) or rejects it.
\<close>

record collaborators =
  parseBOP :: "byte list \<Rightarrow> BOPMsg option"
  notify_of_bop :: "u32 \<Rightarrow> BOPMsg \<Rightarrow> bool"

text \<open>
  The members of class \<open>fmtpRecvv3\<close> that hold the reassembly state: \<open>prodidx_mcast\<close>,
  \<open>trackermap\<close>, \<open>EOPmap\<close>, \<open>misBOPset\<close> and \<open>msgqueue\<close>. Sockets, threads and locks are
  left out, and so are the draining and the bound of the queue, which belong to the
  sender of the requests.

  Modelled from the spec: the class declares no member for the terminal states of
  section 4.D; the last three fields stand for them: the products that reached DELIVERED
  and those that reached ABANDONED (the missed-hook), each in the order of the
  notifications, and the products whose entry the shutdown cancelled.
\<close>

record fmtpRecvv3 =
  prodidx_mcast :: u32
  trackermap :: "u32 \<rightharpoonup> Entry"
  EOPmap :: "u32 \<rightharpoonup> bool"
  misBOPset :: "u32 set"
  msgqueue :: "INLReqMsg list"
  delivered :: "u32 list"
  missed :: "u32 list"
  cancelled :: "u32 set"

text \<open>
  The errors that the declarations document as \<open>std::runtime_error\<close>: a packet that is
  too small, an invalid payload length, a BOP payload that is too small, an invalid
  packet.
\<close>

datatype error =
  PacketTooSmall | PayloadTooLarge | InvalidPayloadLength | BopPayloadTooSmall |
  InvalidSeqnum | UnknownFlag

section \<open>Decoding of packets\<close>

text \<open>The value of a sequence of bytes in network byte order, and a part of a list.\<close>

definition be_word :: "byte list \<Rightarrow> 'a::len word" where
  "be_word bs = word_of_nat (foldl (\<lambda>acc b. acc * 256 + unat b) 0 bs)"

definition slice :: "nat \<Rightarrow> nat \<Rightarrow> 'a list \<Rightarrow> 'a list" where
  "slice off n xs = take n (drop off xs)"

text \<open>The \<open>n\<close> bytes of a number in network byte order (the most significant first).\<close>

fun be_bytes :: "nat \<Rightarrow> nat \<Rightarrow> byte list" where
  "be_bytes 0 x = []"
| "be_bytes (Suc n) x = be_bytes n (x div 256) @ [word_of_nat (x mod 256)]"

text \<open>
  Modelled from the spec: the conversion of a header to and from network byte order is
  missing from the sources. Section 3 puts the header on the wire in network byte order;
  the members are written and read in the order, at the offsets and with the sizes of
  the struct of fmtp.h.
\<close>

definition hton_header :: "FmtpHeader \<Rightarrow> byte list" where
  "hton_header header =
     be_bytes 2 (unat (src_port header)) @ be_bytes 2 (unat (dest_port header)) @
     be_bytes 4 (unat (session_id header)) @ be_bytes 4 (unat (seq_number header)) @
     be_bytes 4 (unat (data_len header)) @ be_bytes 4 (unat (flags header))"

definition ntoh_header :: "byte list \<Rightarrow> FmtpHeader" where
  "ntoh_header bs =
     \<lparr>src_port = be_word (slice 0 2 bs), dest_port = be_word (slice 2 2 bs),
      session_id = be_word (slice 4 4 bs), seq_number = be_word (slice 8 4 bs),
      data_len = be_word (slice 12 4 bs), flags = be_word (slice 16 4 bs)\<rparr>"

text \<open>
  Modelled from the spec: the body of \<open>checkPayloadLen(header, nbytes)\<close> is missing from
  the sources. Section 4.A: the payload length must not exceed the packet length less
  the header; the declaration of \<open>decodeHeader\<close> documents the error of "an invalid
  payload length", which is a length that is not that of what follows the header.
\<close>

definition checkPayloadLen :: "FmtpHeader \<Rightarrow> nat \<Rightarrow> error + unit" where
  "checkPayloadLen header nbytes =
     (if FMTP_DATA_LEN < uint (data_len header) then Inl PayloadTooLarge
      else if int nbytes - FMTP_HLEN \<noteq> uint (data_len header) then Inl InvalidPayloadLength
      else Inr ())"

text \<open>
  Modelled from the spec: the body of \<open>decodeHeader(packet, nbytes, header, payload)\<close> is
  missing from the sources, which document that it raises \<open>std::runtime_error\<close> "if the
  packet is too small" and "if the packet has an invalid payload length".
\<close>

definition decodeHeader :: "byte list \<Rightarrow> error + FmtpHeader \<times> byte list" where
  "decodeHeader packet =
     (if int (length packet) < FMTP_HLEN then Inl PacketTooSmall
      else let header = ntoh_header (take (nat FMTP_HLEN) packet) in
        case checkPayloadLen header (length packet) of
          Inl err \<Rightarrow> Inl err
        | Inr _ \<Rightarrow> Inr (header, drop (nat FMTP_HLEN) packet))"

section \<open>The product tracker\<close>

text \<open>
  The bodies of the member functions of \<open>fmtpRecvv3\<close> are missing from the sources:
  fmtpRecvv3.h only declares them. The definitions of this section keep the declared
  names and follow what the declarations document and what sections 3, 4 and 7 of the
  spec say.
\<close>

text \<open>
  Modelled from the spec: the comparison of product indices, which is missing from the
  sources (\<open>prodidx_mcast\<close> is a \<open>uint32_t\<close> there). Section 3: index comparisons are
  "signed 32-bit differences (a - b interpreted as int32 sign)".
\<close>

definition prodindex_after :: "u32 \<Rightarrow> u32 \<Rightarrow> bool" where
  "prodindex_after a b = (0 < sint (a - b))"

text \<open>
  Modelled from the spec: the bodies of \<open>pushMissingBopReq\<close>, \<open>pushMissingDataReq\<close> and
  \<open>sendRetxEnd\<close> are missing from the sources. Each "pushes a request ... onto the
  retransmission-request queue"; section 4.A: requests are pushed "in FIFO order".
\<close>

definition pushMissingBopReq :: "u32 \<Rightarrow> fmtpRecvv3 \<Rightarrow> fmtpRecvv3" where
  "pushMissingBopReq prodindex s = s\<lparr>msgqueue := msgqueue s @ [BOP_REQ prodindex]\<rparr>"

definition pushMissingDataReq :: "u32 \<Rightarrow> u32 \<Rightarrow> u16 \<Rightarrow> fmtpRecvv3 \<Rightarrow> fmtpRecvv3" where
  "pushMissingDataReq prodindex sn datalen s =
     s\<lparr>msgqueue := msgqueue s @ [DATA_REQ prodindex sn datalen]\<rparr>"

definition sendRetxEnd :: "u32 \<Rightarrow> fmtpRecvv3 \<Rightarrow> fmtpRecvv3" where
  "sendRetxEnd prodindex s = s\<lparr>msgqueue := msgqueue s @ [RETX_END prodindex]\<rparr>"

text \<open>
  Modelled from the spec: the bodies of \<open>bool addUnrqBOPinSet(uint32_t)\<close> and
  \<open>bool rmMisBOPinSet(uint32_t)\<close> are missing from the sources. They add an index to
  the Missing-BOP set of section 3 and remove one from it; the result tells whether the
  set changed.
\<close>

definition addUnrqBOPinSet :: "u32 \<Rightarrow> fmtpRecvv3 \<Rightarrow> bool \<times> fmtpRecvv3" where
  "addUnrqBOPinSet prodindex s =
     (prodindex \<notin> misBOPset s, s\<lparr>misBOPset := insert prodindex (misBOPset s)\<rparr>)"

definition rmMisBOPinSet :: "u32 \<Rightarrow> fmtpRecvv3 \<Rightarrow> bool \<times> fmtpRecvv3" where
  "rmMisBOPinSet prodindex s =
     (prodindex \<in> misBOPset s, s\<lparr>misBOPset := misBOPset s - {prodindex}\<rparr>)"

text \<open>
  Modelled from the spec: the bodies of \<open>initEOPStatus\<close>, \<open>setEOPStatus\<close>,
  \<open>clearEOPStatus\<close> and \<open>getEOPStatus\<close> are missing from the sources. They keep, in
  \<open>EOPmap\<close>, whether the EOP of a product has been seen (section 4.D).
\<close>

definition initEOPStatus :: "u32 \<Rightarrow> fmtpRecvv3 \<Rightarrow> fmtpRecvv3" where
  "initEOPStatus prodindex s = s\<lparr>EOPmap := (EOPmap s)(prodindex \<mapsto> False)\<rparr>"

definition setEOPStatus :: "u32 \<Rightarrow> fmtpRecvv3 \<Rightarrow> fmtpRecvv3" where
  "setEOPStatus prodindex s = s\<lparr>EOPmap := (EOPmap s)(prodindex \<mapsto> True)\<rparr>"

definition clearEOPStatus :: "u32 \<Rightarrow> fmtpRecvv3 \<Rightarrow> fmtpRecvv3" where
  "clearEOPStatus prodindex s = s\<lparr>EOPmap := (EOPmap s)(prodindex := None)\<rparr>"

definition getEOPStatus :: "u32 \<Rightarrow> fmtpRecvv3 \<Rightarrow> bool" where
  "getEOPStatus prodindex s = (EOPmap s prodindex = Some True)"

text \<open>
  Modelled from the spec: the terminal states of section 4.D. A product is finished when
  it was delivered or abandoned, or cancelled by the shutdown; the state machine has no
  transition out of these states.
\<close>

definition finished :: "fmtpRecvv3 \<Rightarrow> u32 \<Rightarrow> bool" where
  "finished s prodindex =
     (prodindex \<in> set (delivered s) \<or> prodindex \<in> set (missed s) \<or> prodindex \<in> cancelled s)"

text \<open>
  Modelled from the spec: the request of one missing BOP, which is missing from the
  sources. Sections 3, 4.A and 8: the index is added to Missing-BOP and a BOP-REQ is
  enqueued, once for a product: the request is pushed only when \<open>addUnrqBOPinSet\<close>
  tells that the index was not yet in the set. A product that is tracked is not missing,
  and nothing is requested after delivery or abandonment.
\<close>

definition requestMissingBop :: "u32 \<Rightarrow> fmtpRecvv3 \<Rightarrow> fmtpRecvv3" where
  "requestMissingBop prodindex s =
     (if trackermap s prodindex \<noteq> None \<or> finished s prodindex then s
      else case addUnrqBOPinSet prodindex s of
        (added, s1) \<Rightarrow> if added then pushMissingBopReq prodindex s1 else s1)"

text \<open>
  Modelled from the spec: the body of \<open>requestMissingBops(openleft, openright)\<close> is
  missing from the sources, which document: "Requests BOP packets for a prodindex
  interval", both ends open. Section 4.A: "enqueue BOP-REQ for each missing prodindex in
  the gap". The loop counts modulo \<open>2 ^ 32\<close>, as a \<open>uint32_t\<close> does.
\<close>

function requestMissingBops :: "u32 \<Rightarrow> u32 \<Rightarrow> fmtpRecvv3 \<Rightarrow> fmtpRecvv3" where
  "requestMissingBops openleft openright s =
     (if openleft + 1 = openright then s
      else requestMissingBops (openleft + 1) openright (requestMissingBop (openleft + 1) s))"
  by pat_completeness auto
termination
proof (relation "measure (\<lambda>(openleft, openright, s). unat (openright - openleft - 1))")
  show "wf (measure (\<lambda>(openleft, openright, s). unat (openright - openleft - 1)))"
    by simp
next
  fix openleft openright :: u32 and s :: fmtpRecvv3
  assume ne: "openleft + 1 \<noteq> openright"
  have nz: "openright - openleft - 1 \<noteq> 0"
  proof
    assume "openright - openleft - 1 = 0"
    then have "openright = openleft + 1"
      by (simp add: algebra_simps)
    with ne show False
      by simp
  qed
  have "openright - (openleft + 1) - 1 = (openright - openleft - 1) - 1"
    by simp
  then have "unat (openright - (openleft + 1) - 1) < unat (openright - openleft - 1)"
    using measure_unat [OF nz] by simp
  then show "((openleft + 1, openright, requestMissingBop (openleft + 1) s),
              openleft, openright, s)
             \<in> measure (\<lambda>(openleft, openright, s). unat (openright - openleft - 1))"
    by simp
qed

declare requestMissingBops.simps [simp del]

text \<open>
  Modelled from the spec: the body of \<open>requestMissingBopsExclusive(prodindex)\<close> is missing
  from the sources, which document: "Requests BOP packets for data-products that come
  after the current data-product up to and excluding a given data-product", and "1 means
  everything is okay. 2 means out-of-sequence packet is received". The current product
  is \<open>prodidx_mcast\<close>, the highest index seen; the given index is in sequence when it
  comes after it.
\<close>

definition requestMissingBopsExclusive :: "u32 \<Rightarrow> fmtpRecvv3 \<Rightarrow> int \<times> fmtpRecvv3" where
  "requestMissingBopsExclusive prodindex s =
     (if prodindex_after prodindex (prodidx_mcast s)
      then (1, requestMissingBops (prodidx_mcast s) prodindex s)
      else (2, s))"

text \<open>
  Modelled from the spec: the body of \<open>requestMissingBopsInclusive(prodindex)\<close> is missing
  from the sources, which document the same "up to and including a given data-product",
  with the same two results.
\<close>

definition requestMissingBopsInclusive :: "u32 \<Rightarrow> fmtpRecvv3 \<Rightarrow> int \<times> fmtpRecvv3" where
  "requestMissingBopsInclusive prodindex s =
     (if prodindex_after prodindex (prodidx_mcast s)
      then (1, requestMissingBops (prodidx_mcast s) (prodindex + 1) s)
      else (2, s))"

text \<open>
  Modelled from the spec: what the receiver does for the DATA or EOP of a product
  without Tracker entry, which is missing from the sources. The packet is dropped, never
  buffered (section 3). Section 7: a segment that arrives after its product was
  delivered or abandoned is dropped silently. Otherwise the index takes the Missing-BOP
  path (sections 4.A and 9): a multicast packet requests the missing BOPs up to and
  including its own and, when it is out of sequence (result 2), the BOP of its own index;
  a retransmitted packet requests the BOP of its own index only, since the
  retransmission path must not request on gap detection (section 4.C).
\<close>

definition dropBeforeBOP :: "bool \<Rightarrow> u32 \<Rightarrow> fmtpRecvv3 \<Rightarrow> fmtpRecvv3" where
  "dropBeforeBOP retx prodindex s =
     (if finished s prodindex then s
      else if retx then requestMissingBop prodindex s
      else case requestMissingBopsInclusive prodindex s of
        (state, s1) \<Rightarrow> if state = 1 then s1 else requestMissingBop prodindex s)"

text \<open>
  Modelled from the spec: the number of segments of a product, \<open>ceil (prodsize /
  payload_len)\<close> (section 8). A product with segment size 0 has no valid segment.
\<close>

definition segments :: "nat \<Rightarrow> nat \<Rightarrow> nat" where
  "segments psize len = (if len = 0 then 0 else (psize + len - 1) div len)"

text \<open>
  Modelled from the spec: the body of \<open>BOPHandler\<close> is missing from the sources, which
  document: "Parse BOP message and call notifier to notify receiving application", with
  \<open>std::runtime_error\<close> "if the payload is too small". Section 4.A: an index in
  Missing-BOP is removed from it and the entry is allocated; when the notifier rejects
  the product, the entry has no buffer and segments are "accounted but not stored".
\<close>

definition BOPHandler ::
  "collaborators \<Rightarrow> FmtpHeader \<Rightarrow> byte list \<Rightarrow> fmtpRecvv3 \<Rightarrow> error + fmtpRecvv3" where
  "BOPHandler c header FmtpPacketData s =
     (case parseBOP c FmtpPacketData of
        None \<Rightarrow> Inl BopPayloadTooSmall
      | Some m \<Rightarrow>
          let prodindex = session_id header;
              entry = \<lparr>prodsize = bop_prodsize m,
                       prodptr = (if notify_of_bop c prodindex m
                                  then Some (replicate (unat (bop_prodsize m)) 0) else None),
                       seqnum = 0, paylen = bop_paylen m, numRetrans = 0,
                       received_bitmap =
                         replicate (segments (unat (bop_prodsize m)) (unat (bop_paylen m))) False\<rparr>;
              s1 = snd (rmMisBOPinSet prodindex s)
          in Inr (initEOPStatus prodindex
                    (s1\<lparr>trackermap := (trackermap s1)(prodindex \<mapsto> entry)\<rparr>)))"

text \<open>
  Modelled from the spec: the body of \<open>mcastBOPHandler\<close> is missing from the sources.
  Sections 4.A, 4.D and 7: a BOP for an index already tracked is dropped, and so is the
  BOP of a finished product (a terminal state has no transition). A BOP that comes after
  the highest index seen requests the BOPs of the gap, allocates its entry and becomes
  the highest index seen. An out-of-order BOP is "accepted if still in Missing-BOP;
  otherwise dropped as stale". A BOP payload that does not parse is an error and changes
  nothing.
\<close>

definition mcastBOPHandler ::
  "collaborators \<Rightarrow> FmtpHeader \<Rightarrow> byte list \<Rightarrow> fmtpRecvv3 \<Rightarrow> error + fmtpRecvv3" where
  "mcastBOPHandler c header FmtpPacketData s =
     (let prodindex = session_id header in
      if parseBOP c FmtpPacketData = None then Inl BopPayloadTooSmall
      else if trackermap s prodindex \<noteq> None \<or> finished s prodindex then Inr s
      else case requestMissingBopsExclusive prodindex s of
        (state, s1) \<Rightarrow>
          if state = 1
          then BOPHandler c header FmtpPacketData (s1\<lparr>prodidx_mcast := prodindex\<rparr>)
          else if prodindex \<in> misBOPset s then BOPHandler c header FmtpPacketData s
          else Inr s)"

text \<open>
  Modelled from the spec: the body of \<open>retxBOPHandler\<close> is missing from the sources.
  Sections 3 and 4.D: an entry is created "by the Retx Receiver on a retransmitted BOP
  for a prodindex in the Missing-BOP set"; a "Retx BOP arriving after a multicast BOP" is
  ignored.
\<close>

definition retxBOPHandler ::
  "collaborators \<Rightarrow> FmtpHeader \<Rightarrow> byte list \<Rightarrow> fmtpRecvv3 \<Rightarrow> error + fmtpRecvv3" where
  "retxBOPHandler c header FmtpPacketData s =
     (let prodindex = session_id header in
      if parseBOP c FmtpPacketData = None then Inl BopPayloadTooSmall
      else if trackermap s prodindex = None \<and> \<not> finished s prodindex \<and>
              prodindex \<in> misBOPset s
      then BOPHandler c header FmtpPacketData s
      else Inr s)"

text \<open>
  Modelled from the spec: the delivery of a complete product, which is missing from the
  sources. Section 4.A: "notify delivery and free"; the entry and its EOP status are
  erased and the product has reached DELIVERED.
\<close>

definition deliverProduct :: "u32 \<Rightarrow> fmtpRecvv3 \<Rightarrow> fmtpRecvv3" where
  "deliverProduct prodindex s =
     (let s1 = clearEOPStatus prodindex (s\<lparr>trackermap := (trackermap s)(prodindex := None)\<rparr>)
      in s1\<lparr>delivered := delivered s1 @ [prodindex]\<rparr>)"

text \<open>
  Modelled from the spec: the validation of a data packet, which is missing from the
  sources. Section 4.A: \<open>seqnum % payload_len == 0\<close> and
  \<open>i * payload_len + payload_len \<le> prodsize + payload_len - 1\<close> for
  \<open>i = seqnum / payload_len\<close>.
\<close>

definition valid_seqnum :: "nat \<Rightarrow> nat \<Rightarrow> nat \<Rightarrow> bool" where
  "valid_seqnum psize len sn =
     (len \<noteq> 0 \<and> sn mod len = 0 \<and> (sn div len) * len + len \<le> psize + len - 1)"

text \<open>
  Modelled from the spec: the segments below \<open>i\<close> whose bit is still zero (section 4.A,
  "each missing segment from the last contiguous edge up to i - 1"), and the copy of a
  payload into the buffer at an offset; the buffer keeps its size, since it owns
  \<open>prodsize\<close> bytes (section 3).
\<close>

definition missing_segments :: "bool list \<Rightarrow> nat \<Rightarrow> nat list" where
  "missing_segments bitmap i = filter (\<lambda>j. \<not> bitmap ! j) [0..<min i (length bitmap)]"

definition copy_payload :: "byte list \<Rightarrow> nat \<Rightarrow> byte list \<Rightarrow> byte list" where
  "copy_payload buf off payload =
     take (length buf) (take off buf @ payload @ drop (off + length payload) buf)"

text \<open>
  Modelled from the spec: the body of \<open>requestAnyMissingData(prodindex, mostRecent)\<close> is
  missing from the sources. Section 4.A: "enqueue DATA-REQ for each missing segment from
  the last contiguous edge up to i - 1", one request per segment; \<open>numRetrans\<close> is the
  number of requests sent for the product (section 3). Nothing is requested for a product
  the notifier rejected (section 7).
\<close>

definition requestAnyMissingData :: "u32 \<Rightarrow> nat \<Rightarrow> fmtpRecvv3 \<Rightarrow> fmtpRecvv3" where
  "requestAnyMissingData prodindex i s =
     (case trackermap s prodindex of
        None \<Rightarrow> s
      | Some t \<Rightarrow>
          if prodptr t = None then s
          else let js = missing_segments (received_bitmap t) i;
                   t1 = t\<lparr>numRetrans := numRetrans t + word_of_nat (length js)\<rparr>
               in foldl (\<lambda>s' j. pushMissingDataReq prodindex
                                   (word_of_nat (j * unat (paylen t))) (paylen t) s')
                    (s\<lparr>trackermap := (trackermap s)(prodindex \<mapsto> t1)\<rparr>) js)"

text \<open>
  Modelled from the spec: the handling of a data packet; the bodies of \<open>recvMemData\<close>
  and of the retransmission handler are missing from the sources. Sections 4.A, 4.C and
  4.D: without Tracker entry the payload is dropped, as said above. With an entry, an
  invalid offset is an error, a segment whose bit is set is a no-op ("first writer
  wins"), and otherwise the payload is stored and the bit set. Only a multicast packet
  requests the segments missing before it; a retransmitted one (\<open>retx\<close>) must not. When
  the bitmap fills after the EOP was seen, the product is delivered.
\<close>

definition dataHandler :: "bool \<Rightarrow> FmtpHeader \<Rightarrow> byte list \<Rightarrow> fmtpRecvv3 \<Rightarrow> error + fmtpRecvv3" where
  "dataHandler retx header payload s =
     (let prodindex = session_id header in
      case trackermap s prodindex of
        None \<Rightarrow> Inr (dropBeforeBOP retx prodindex s)
      | Some t \<Rightarrow>
          let sn = unat (seq_number header); i = sn div unat (paylen t) in
          if \<not> valid_seqnum (unat (prodsize t)) (unat (paylen t)) sn \<or>
             length (received_bitmap t) \<le> i
          then Inl InvalidSeqnum
          else if received_bitmap t ! i then Inr s
          else
            let t1 = t\<lparr>prodptr := map_option (\<lambda>buf. copy_payload buf sn payload) (prodptr t),
                       seqnum := seq_number header,
                       received_bitmap := (received_bitmap t)[i := True]\<rparr>;
                s1 = s\<lparr>trackermap := (trackermap s)(prodindex \<mapsto> t1)\<rparr>;
                s2 = (if retx then s1 else requestAnyMissingData prodindex i s1)
            in Inr (if getEOPStatus prodindex s2 \<and> list_all id (received_bitmap t1)
                    then deliverProduct prodindex s2 else s2))"

definition recvMemData :: "FmtpHeader \<Rightarrow> byte list \<Rightarrow> fmtpRecvv3 \<Rightarrow> error + fmtpRecvv3" where
  "recvMemData header payload s = dataHandler False header payload s"

definition retxDataHandler :: "FmtpHeader \<Rightarrow> byte list \<Rightarrow> fmtpRecvv3 \<Rightarrow> error + fmtpRecvv3" where
  "retxDataHandler header payload s = dataHandler True header payload s"

text \<open>
  Modelled from the spec: the bodies of \<open>EOPHandler\<close>, \<open>mcastEOPHandler\<close> and
  \<open>retxEOPHandler\<close> are missing from the sources. Section 4.A: the EOP is marked as
  seen; a full bitmap delivers the product, otherwise a multicast EOP enqueues a DATA-REQ
  for each missing segment. An EOP without Tracker entry is dropped like a data packet
  without one (section 3).
\<close>

definition EOPHandler :: "bool \<Rightarrow> FmtpHeader \<Rightarrow> fmtpRecvv3 \<Rightarrow> error + fmtpRecvv3" where
  "EOPHandler retx header s =
     (let prodindex = session_id header in
      case trackermap s prodindex of
        None \<Rightarrow> Inr (dropBeforeBOP retx prodindex s)
      | Some t \<Rightarrow>
          let s1 = setEOPStatus prodindex s in
          if list_all id (received_bitmap t) then Inr (deliverProduct prodindex s1)
          else if retx then Inr s1
          else Inr (requestAnyMissingData prodindex (length (received_bitmap t)) s1))"

definition mcastEOPHandler :: "FmtpHeader \<Rightarrow> fmtpRecvv3 \<Rightarrow> error + fmtpRecvv3" where
  "mcastEOPHandler header s = EOPHandler False header s"

definition retxEOPHandler :: "FmtpHeader \<Rightarrow> fmtpRecvv3 \<Rightarrow> error + fmtpRecvv3" where
  "retxEOPHandler header s = EOPHandler True header s"

subsection \<open>The five operations of section 4.D\<close>

text \<open>
  Modelled from the spec: \<open>on_mcast_packet(header, payload)\<close>, the dispatch of
  \<open>mcastHandler\<close>, whose body is missing from the sources. Section 4.A: the Multicast
  Reader accepts the flags BOP, DATA and EOP, which fmtp.h names \<open>FMTP_BOF\<close>,
  \<open>FMTP_DATA\<close> and \<open>FMTP_EOF\<close>; any other flag is an error.
\<close>

definition on_mcast_packet ::
  "collaborators \<Rightarrow> FmtpHeader \<Rightarrow> byte list \<Rightarrow> fmtpRecvv3 \<Rightarrow> error + fmtpRecvv3" where
  "on_mcast_packet c header payload s =
     (if flags header = FMTP_BOF then mcastBOPHandler c header payload s
      else if flags header = FMTP_DATA then recvMemData header payload s
      else if flags header = FMTP_EOF then mcastEOPHandler header s
      else Inl UnknownFlag)"

text \<open>
  Modelled from the spec: \<open>on_retx_end(prodindex)\<close>, which is missing from the sources.
  Sections 4.C and 7: the product is abandoned and the missed-hook invoked; an index
  that is neither tracked nor awaited has nothing to abandon.
\<close>

definition on_retx_end :: "u32 \<Rightarrow> fmtpRecvv3 \<Rightarrow> fmtpRecvv3" where
  "on_retx_end prodindex s =
     (if trackermap s prodindex = None \<and> prodindex \<notin> misBOPset s then s
      else let s1 = snd (rmMisBOPinSet prodindex
                           (clearEOPStatus prodindex
                              (s\<lparr>trackermap := (trackermap s)(prodindex := None)\<rparr>)))
           in s1\<lparr>missed := missed s1 @ [prodindex]\<rparr>)"

text \<open>
  Modelled from the spec: \<open>on_retx_packet(header, payload)\<close>, the dispatch of
  \<open>retxHandler\<close>, whose body is missing from the sources. Section 4.C: the frames of the
  retransmission channel are those of the multicast channel and, in addition, the end of
  retransmission (\<open>FMTP_RETRANS_END\<close>).
\<close>

definition on_retx_packet ::
  "collaborators \<Rightarrow> FmtpHeader \<Rightarrow> byte list \<Rightarrow> fmtpRecvv3 \<Rightarrow> error + fmtpRecvv3" where
  "on_retx_packet c header payload s =
     (if flags header = FMTP_BOF then retxBOPHandler c header payload s
      else if flags header = FMTP_DATA then retxDataHandler header payload s
      else if flags header = FMTP_EOF then retxEOPHandler header s
      else if flags header = FMTP_RETRANS_END then Inr (on_retx_end (session_id header) s)
      else Inl UnknownFlag)"

text \<open>
  Modelled from the spec: \<open>on_timer_expired(prodindex)\<close>; the body of \<open>timerThread\<close> is
  missing from the sources. Section 4.E: a complete entry is delivered; any other entry
  is abandoned, with the missed-hook invoked, the buffer freed and a RETX_END enqueued.
  An absent entry "is already delivered or freed" (section 9).
\<close>

definition on_timer_expired :: "u32 \<Rightarrow> fmtpRecvv3 \<Rightarrow> fmtpRecvv3" where
  "on_timer_expired prodindex s =
     (case trackermap s prodindex of
        None \<Rightarrow> s
      | Some t \<Rightarrow>
          if getEOPStatus prodindex s \<and> list_all id (received_bitmap t)
          then deliverProduct prodindex s
          else let s1 = clearEOPStatus prodindex
                          (s\<lparr>trackermap := (trackermap s)(prodindex := None)\<rparr>)
               in sendRetxEnd prodindex (s1\<lparr>missed := missed s1 @ [prodindex]\<rparr>))"

text \<open>
  Modelled from the spec: \<open>shutdown()\<close>; the body of \<open>Stop\<close> is missing from the sources.
  Section 4.D: it "drops all live entries, invoking the notifier's cancellation hook for
  each".
\<close>

definition shutdown :: "fmtpRecvv3 \<Rightarrow> fmtpRecvv3" where
  "shutdown s =
     s\<lparr>trackermap := Map.empty, EOPmap := Map.empty,
       cancelled := cancelled s \<union> dom (trackermap s)\<rparr>"

subsection \<open>The receive loops\<close>

text \<open>
  Modelled from the spec: the bodies of \<open>mcastHandler\<close> and \<open>retxHandler\<close> are missing
  from the sources. Sections 4.A and 4.C: each loop reads a packet, decodes its header
  and dispatches it. One turn of each loop, on one datagram or frame, returns the new
  state or the error that the declarations document as \<open>std::runtime_error\<close>. What a
  loop does with the error afterwards is left out: the sources do not contain it.
\<close>

definition mcastHandler_packet ::
  "collaborators \<Rightarrow> byte list \<Rightarrow> fmtpRecvv3 \<Rightarrow> error + fmtpRecvv3" where
  "mcastHandler_packet c packet s =
     (case decodeHeader packet of
        Inl err \<Rightarrow> Inl err
      | Inr (header, payload) \<Rightarrow> on_mcast_packet c header payload s)"

definition retxHandler_packet ::
  "collaborators \<Rightarrow> byte list \<Rightarrow> fmtpRecvv3 \<Rightarrow> error + fmtpRecvv3" where
  "retxHandler_packet c packet s =
     (case decodeHeader packet of
        Inl err \<Rightarrow> Inl err
      | Inr (header, payload) \<Rightarrow> on_retx_packet c header payload s)"

subsection \<open>Runs of the tracker\<close>

text \<open>
  The events that reach the tracker, one for each operation of section 4.D, and the
  state after a sequence of them. An operation returns an error or a new state; a packet
  that is an error therefore leaves the state of the run as it is.
\<close>

datatype event =
  McastPacket FmtpHeader "byte list"
| RetxPacket FmtpHeader "byte list"
| RetxEnd u32
| TimerExpired u32
| Shutdown

definition keepOnError :: "fmtpRecvv3 \<Rightarrow> error + fmtpRecvv3 \<Rightarrow> fmtpRecvv3" where
  "keepOnError s r = (case r of Inl err \<Rightarrow> s | Inr s' \<Rightarrow> s')"

definition step :: "collaborators \<Rightarrow> event \<Rightarrow> fmtpRecvv3 \<Rightarrow> fmtpRecvv3" where
  "step c ev s =
     (case ev of
        McastPacket header payload \<Rightarrow> keepOnError s (on_mcast_packet c header payload s)
      | RetxPacket header payload \<Rightarrow> keepOnError s (on_retx_packet c header payload s)
      | RetxEnd prodindex \<Rightarrow> on_retx_end prodindex s
      | TimerExpired prodindex \<Rightarrow> on_timer_expired prodindex s
      | Shutdown \<Rightarrow> shutdown s)"

fun run :: "collaborators \<Rightarrow> event list \<Rightarrow> fmtpRecvv3 \<Rightarrow> fmtpRecvv3" where
  "run c [] s = s"
| "run c (ev # evs) s = run c evs (step c ev s)"



text \<open>
  The state of a receiver that has tracked nothing yet. The spec does not fix the first
  value of the highest index seen; it is a parameter.
\<close>

definition fresh_receiver :: "u32 \<Rightarrow> fmtpRecvv3" where
  "fresh_receiver first =
     \<lparr>prodidx_mcast = first, trackermap = Map.empty, EOPmap = Map.empty, misBOPset = {},
      msgqueue = [], delivered = [], missed = [], cancelled = {}\<rparr>"

subsection \<open>Notions the claims are stated with\<close>



text \<open>
  Collaborators for the worked examples: the BOP payload is read as the product size
  (4 bytes), the segment size (2 bytes) and the metadata, and the notifier accepts every
  product. A header for the examples has the ports 0.
\<close>

definition example_parseBOP :: "byte list \<Rightarrow> BOPMsg option" where
  "example_parseBOP p =
     (if length p < 6 then None
      else Some \<lparr>bop_prodsize = be_word (slice 0 4 p), bop_paylen = be_word (slice 4 2 p),
                 bop_metadata = drop 6 p\<rparr>)"

definition example_collaborators :: collaborators where
  "example_collaborators = \<lparr>parseBOP = example_parseBOP, notify_of_bop = (\<lambda>i m. True)\<rparr>"

definition mk_header :: "u32 \<Rightarrow> u32 \<Rightarrow> u32 \<Rightarrow> u32 \<Rightarrow> FmtpHeader" where
  "mk_header prodindex sn len fl =
     \<lparr>src_port = 0, dest_port = 0, session_id = prodindex, seq_number = sn,
      data_len = len, flags = fl\<rparr>"

section \<open>Results about the header and the constants\<close>

lemma sizeof_FMTP_HEADER_eq: "sizeof_FMTP_HEADER = 20"
  by (simp add: sizeof_FMTP_HEADER_def sizeof_struct_def FmtpHeader_members_def align_up_def)

lemma FMTP_HLEN_eq: "FMTP_HLEN = 20"
  by (simp add: FMTP_HLEN_def sizeof_FMTP_HEADER_eq)

lemma FMTP_DATA_LEN_eq: "FMTP_DATA_LEN = 1440"
  by (simp add: FMTP_DATA_LEN_def FMTP_PACKET_LEN_def sizeof_FMTP_HEADER_eq)

lemmas FMTP_flag_defs =
  FMTP_DATA_def FMTP_BOF_def FMTP_EOF_def FMTP_SENDER_MSG_EXP_def FMTP_RETRANS_REQ_def
  FMTP_RETRANS_DATA_def FMTP_RETRANS_END_def FMTP_RETRANS_TIMEOUT_def FMTP_BOF_REQ_def
  FMTP_HISTORY_STATISTICS_def

lemma length_be_bytes [simp]: "length (be_bytes n x) = n"
  by (induction n arbitrary: x) simp_all

lemma be_bytes_numeral:
  "be_bytes (numeral k) x = be_bytes (pred_numeral k) (x div 256) @ [word_of_nat (x mod 256)]"
proof -
  have "be_bytes (Suc (pred_numeral k)) x =
        be_bytes (pred_numeral k) (x div 256) @ [word_of_nat (x mod 256)]"
    by (rule be_bytes.simps)
  then show ?thesis
    by (simp only: numeral_eq_Suc [symmetric])
qed

lemma unat_byte_of_nat_mod: "unat (word_of_nat (x mod 256) :: byte) = x mod 256"
  by (simp add: unat_of_nat)

lemma foldl_be_bytes:
  "foldl (\<lambda>acc b. acc * 256 + unat b) a (be_bytes n x) = a * 256 ^ n + x mod 256 ^ n"
proof (induction n arbitrary: x)
  case 0
  then show ?case by simp
next
  case (Suc n)
  have m: "x mod (256 * 256 ^ n) = 256 * (x div 256 mod 256 ^ n) + x mod 256"
    by (rule mod_mult2_eq)
  have "foldl (\<lambda>acc b. acc * 256 + unat b) a (be_bytes (Suc n) x) =
        (a * 256 ^ n + x div 256 mod 256 ^ n) * 256 + x mod 256"
    by (simp only: be_bytes.simps foldl_append foldl_Cons foldl_Nil Suc.IH
          unat_byte_of_nat_mod)
  also have "\<dots> = a * 256 ^ Suc n + x mod 256 ^ Suc n"
    using m by (simp add: distrib_right)
  finally show ?case .
qed

lemma be_word_be_bytes:
  "(be_word (be_bytes n x) :: 'a::len word) = word_of_nat (x mod 256 ^ n)"
  by (simp add: be_word_def foldl_be_bytes)

lemma be_word_be_bytes_u32 [simp]: "be_word (be_bytes 4 (unat (w :: u32))) = w"
proof -
  have "unat w < 256 ^ 4"
    using unsigned_less [of w, where ?'a = nat] by simp
  then show ?thesis
    by (simp add: be_word_be_bytes)
qed

lemma be_word_be_bytes_u16 [simp]: "be_word (be_bytes 2 (unat (w :: u16))) = w"
proof -
  have "unat w < 256 ^ 2"
    using unsigned_less [of w, where ?'a = nat] by simp
  then show ?thesis
    by (simp add: be_word_be_bytes)
qed

lemma length_hton_header [simp]: "length (hton_header header) = 20"
  by (simp add: hton_header_def)

lemma ntoh_hton_header [simp]: "ntoh_header (hton_header header) = header"
  by (simp add: ntoh_header_def hton_header_def slice_def)

lemma foldl_bytes_bound:
  "foldl (\<lambda>acc b. acc * 256 + unat (b :: byte)) 0 bs < 256 ^ length bs"
proof (induction bs rule: rev_induct)
  case Nil
  then show ?case by simp
next
  case (snoc b bs)
  have "unat b < 256"
    using unsigned_less [of b, where ?'a = nat] by simp
  with snoc show ?case
    by simp
qed

lemma be_bytes_foldl:
  "be_bytes (length bs) (foldl (\<lambda>acc b. acc * 256 + unat (b :: byte)) 0 bs) = bs"
proof (induction bs rule: rev_induct)
  case Nil
  then show ?case by simp
next
  case (snoc b bs)
  have "unat b < 256"
    using unsigned_less [of b, where ?'a = nat] by simp
  with snoc show ?case
    by simp
qed

lemma be_bytes_be_word_u32:
  assumes "length bs = 4"
  shows "be_bytes 4 (unat (be_word bs :: u32)) = bs"
proof -
  have "foldl (\<lambda>acc b. acc * 256 + unat b) 0 bs < 2 ^ 32"
    using foldl_bytes_bound [of bs] assms by simp
  then have "unat (be_word bs :: u32) = foldl (\<lambda>acc b. acc * 256 + unat b) 0 bs"
    by (simp add: be_word_def unat_of_nat)
  then show ?thesis
    using be_bytes_foldl [of bs] assms by simp
qed

lemma be_bytes_be_word_u16:
  assumes "length bs = 2"
  shows "be_bytes 2 (unat (be_word bs :: u16)) = bs"
proof -
  have "foldl (\<lambda>acc b. acc * 256 + unat b) 0 bs < 2 ^ 16"
    using foldl_bytes_bound [of bs] assms by simp
  then have "unat (be_word bs :: u16) = foldl (\<lambda>acc b. acc * 256 + unat b) 0 bs"
    by (simp add: be_word_def unat_of_nat)
  then show ?thesis
    using be_bytes_foldl [of bs] assms by simp
qed

lemma take_drop_next: "take m (drop n bs) @ drop (n + m) bs = drop n bs"
  by (simp only: drop_drop [symmetric] add.commute [of n m] append_take_drop_id)

lemma slices_20:
  assumes "length bs = 20"
  shows "slice 0 2 bs @ slice 2 2 bs @ slice 4 4 bs @ slice 8 4 bs @ slice 12 4 bs @
         slice 16 4 bs = bs"
proof -
  have "slice 16 4 bs = drop 16 bs"
    using assms by (simp add: slice_def)
  then have "slice 12 4 bs @ slice 16 4 bs = drop 12 bs"
    using take_drop_next [of 4 12 bs] by (simp add: slice_def)
  then have "slice 8 4 bs @ slice 12 4 bs @ slice 16 4 bs = drop 8 bs"
    using take_drop_next [of 4 8 bs] by (simp add: slice_def)
  then have "slice 4 4 bs @ slice 8 4 bs @ slice 12 4 bs @ slice 16 4 bs = drop 4 bs"
    using take_drop_next [of 4 4 bs] by (simp add: slice_def)
  then have "slice 2 2 bs @ slice 4 4 bs @ slice 8 4 bs @ slice 12 4 bs @ slice 16 4 bs
             = drop 2 bs"
    using take_drop_next [of 2 2 bs] by (simp add: slice_def)
  then show ?thesis
    by (simp add: slice_def)
qed

lemma hton_ntoh_header:
  assumes "length bs = 20"
  shows "hton_header (ntoh_header bs) = bs"
proof -
  have "hton_header (ntoh_header bs) =
        slice 0 2 bs @ slice 2 2 bs @ slice 4 4 bs @ slice 8 4 bs @ slice 12 4 bs @ slice 16 4 bs"
    using assms
    by (simp add: hton_header_def ntoh_header_def be_bytes_be_word_u32 be_bytes_be_word_u16
          slice_def)
  then show ?thesis
    using slices_20 [OF assms] by simp
qed

lemma decodeHeader_cases:
  "decodeHeader packet =
     (if int (length packet) < FMTP_HLEN then Inl PacketTooSmall
      else if FMTP_DATA_LEN < uint (data_len (ntoh_header (take (nat FMTP_HLEN) packet)))
      then Inl PayloadTooLarge
      else if int (length packet) - FMTP_HLEN \<noteq>
                uint (data_len (ntoh_header (take (nat FMTP_HLEN) packet)))
      then Inl InvalidPayloadLength
      else Inr (ntoh_header (take (nat FMTP_HLEN) packet), drop (nat FMTP_HLEN) packet))"
  by (simp add: decodeHeader_def checkPayloadLen_def Let_def)

lemma decodeHeader_hton:
  assumes "uint (data_len header) = int (length payload)" "int (length payload) \<le> FMTP_DATA_LEN"
  shows "decodeHeader (hton_header header @ payload) = Inr (header, payload)"
  using assms by (simp add: decodeHeader_cases FMTP_HLEN_eq)

lemma decodeHeader_Inr:
  assumes "decodeHeader packet = Inr (header, payload)"
  shows "packet = hton_header header @ payload \<and> uint (data_len header) = int (length payload) \<and>
         int (length payload) \<le> FMTP_DATA_LEN \<and> int (length packet) \<le> FMTP_PACKET_LEN"
proof -
  from assms have ok: "\<not> int (length packet) < FMTP_HLEN"
      "\<not> FMTP_DATA_LEN < uint (data_len (ntoh_header (take (nat FMTP_HLEN) packet)))"
      "int (length packet) - FMTP_HLEN =
           uint (data_len (ntoh_header (take (nat FMTP_HLEN) packet)))"
    and h: "header = ntoh_header (take (nat FMTP_HLEN) packet)"
    and p: "payload = drop (nat FMTP_HLEN) packet"
    by (simp_all add: decodeHeader_cases split: if_splits)
  have len: "length (take 20 packet) = 20"
    using ok(1) by (simp add: FMTP_HLEN_eq)
  have "hton_header header = take 20 packet"
    using hton_ntoh_header [OF len] h by (simp add: FMTP_HLEN_eq)
  then have "packet = hton_header header @ payload"
    using p by (simp add: FMTP_HLEN_eq)
  moreover have "uint (data_len header) = int (length payload)"
    using ok(1,3) h p by (simp add: FMTP_HLEN_eq)
  moreover have "int (length payload) \<le> FMTP_DATA_LEN"
    using ok(2) h calculation(2) by simp
  moreover have "int (length packet) \<le> FMTP_PACKET_LEN"
    using ok h by (simp add: FMTP_HLEN_eq FMTP_DATA_LEN_eq FMTP_PACKET_LEN_def)
  ultimately show ?thesis
    by simp
qed

lemma mcastHandler_packet_hton:
  assumes "uint (data_len header) = int (length payload)" "int (length payload) \<le> FMTP_DATA_LEN"
  shows "mcastHandler_packet c (hton_header header @ payload) s = on_mcast_packet c header payload s"
    and "retxHandler_packet c (hton_header header @ payload) s = on_retx_packet c header payload s"
  by (simp_all add: mcastHandler_packet_def retxHandler_packet_def decodeHeader_hton [OF assms])

lemma members_of_hton_header:
  "src_port header = be_word (slice 0 2 (hton_header header))"
  "dest_port header = be_word (slice 2 2 (hton_header header))"
  "session_id header = be_word (slice 4 4 (hton_header header))"
  "seq_number header = be_word (slice 8 4 (hton_header header))"
  "data_len header = be_word (slice 12 4 (hton_header header))"
  "flags header = be_word (slice 16 4 (hton_header header))"
  by (simp_all add: hton_header_def slice_def)

text \<open>
  C3, as stated, fails: the header struct of fmtp.h has six members and 20 bytes, not the
  five members and 16 bytes of the claim.
\<close>

theorem C3_header_16_bytes_counterexample:
  "sizeof_FMTP_HEADER \<noteq> 16 \<and>
   map snd FmtpHeader_members \<noteq> [4, 4, 2, 2, 4] \<and>
   map fst FmtpHeader_members \<noteq>
     [''prodindex'', ''seqnum'', ''payload_len'', ''flags'', ''reserved'']"
  by (simp add: sizeof_FMTP_HEADER_eq FmtpHeader_members_def)

text \<open>
  C3, amended: the FMTP packet header (struct FmtpHeader of fmtp.h) is exactly 20 bytes,
  which is also the value of \<open>FMTP_HLEN\<close>, and its layout is src_port:u16 at offset 0,
  dest_port:u16 at 2, session_id:u32 at 4, seq_number:u32 at 8, data_len:u32 at 12 and
  flags:u32 at 16, with no padding between or after the members. On the wire the header
  is these 20 bytes with every member in network byte order: each member is the
  big-endian value of the bytes at its offset, decoding an encoded header gives the
  header back, and encoding the decoded header gives the 20 bytes back. Every frame is
  read with this layout on both channels: the multicast and the retransmission reader
  decode a frame made of an encoded header and its payload to that header and that
  payload and dispatch them, and every frame that decodes is its encoded header
  followed by its payload.
\<close>

theorem C3_header_layout:
  "sizeof_FMTP_HEADER = 20 \<and> FMTP_HLEN = 20 \<and>
   member_offsets 0 FmtpHeader_members =
     [(''src_port'', 0, 2), (''dest_port'', 2, 2), (''session_id'', 4, 4),
      (''seq_number'', 8, 4), (''data_len'', 12, 4), (''flags'', 16, 4)] \<and>
   sum_list (map snd FmtpHeader_members) = sizeof_FMTP_HEADER \<and>
   length (hton_header header) = sizeof_FMTP_HEADER \<and>
   src_port header = be_word (slice 0 2 (hton_header header)) \<and>
   dest_port header = be_word (slice 2 2 (hton_header header)) \<and>
   session_id header = be_word (slice 4 4 (hton_header header)) \<and>
   seq_number header = be_word (slice 8 4 (hton_header header)) \<and>
   data_len header = be_word (slice 12 4 (hton_header header)) \<and>
   flags header = be_word (slice 16 4 (hton_header header)) \<and>
   ntoh_header (hton_header header) = header \<and>
   (length bs = sizeof_FMTP_HEADER \<longrightarrow> hton_header (ntoh_header bs) = bs) \<and>
   (uint (data_len header) = int (length payload) \<and> int (length payload) \<le> FMTP_DATA_LEN \<longrightarrow>
      mcastHandler_packet c (hton_header header @ payload) s =
        on_mcast_packet c header payload s \<and>
      retxHandler_packet c (hton_header header @ payload) s =
        on_retx_packet c header payload s) \<and>
   (decodeHeader packet = Inr (header', payload') \<longrightarrow> packet = hton_header header' @ payload')"
proof -
  have layout: "member_offsets 0 FmtpHeader_members =
     [(''src_port'', 0, 2), (''dest_port'', 2, 2), (''session_id'', 4, 4),
      (''seq_number'', 8, 4), (''data_len'', 12, 4), (''flags'', 16, 4)]"
    "sum_list (map snd FmtpHeader_members) = sizeof_FMTP_HEADER"
    by (simp_all add: sizeof_FMTP_HEADER_eq FmtpHeader_members_def align_up_def)
  show ?thesis
    using layout members_of_hton_header [of header] hton_ntoh_header [of bs]
      mcastHandler_packet_hton [of header payload c s]
      decodeHeader_Inr [of packet header' payload']
    by (simp add: sizeof_FMTP_HEADER_eq FMTP_HLEN_eq)
qed

theorem C3_header_layout_witness:
  "hton_header \<lparr>src_port = 0x0102, dest_port = 0x0304, session_id = 7, seq_number = 1000,
                 data_len = 2, flags = FMTP_DATA\<rparr> =
     [1, 2, 3, 4, 0, 0, 0, 7, 0, 0, 3, 232, 0, 0, 0, 2, 0, 0, 0, 0] \<and>
   mcastHandler_packet example_collaborators
     [1, 2, 3, 4, 0, 0, 0, 7, 0, 0, 3, 232, 0, 0, 0, 2, 0, 0, 0, 0, 9, 9] (fresh_receiver 6) =
   on_mcast_packet example_collaborators
     \<lparr>src_port = 0x0102, dest_port = 0x0304, session_id = 7, seq_number = 1000,
      data_len = 2, flags = FMTP_DATA\<rparr> [9, 9] (fresh_receiver 6) \<and>
   retxHandler_packet example_collaborators
     [1, 2, 3, 4, 0, 0, 0, 7, 0, 0, 3, 232, 0, 0, 0, 2, 0, 0, 0, 0, 9, 9] (fresh_receiver 6) =
   on_retx_packet example_collaborators
     \<lparr>src_port = 0x0102, dest_port = 0x0304, session_id = 7, seq_number = 1000,
      data_len = 2, flags = FMTP_DATA\<rparr> [9, 9] (fresh_receiver 6)"
proof -
  let ?h = "\<lparr>src_port = 0x0102, dest_port = 0x0304, session_id = 7, seq_number = 1000,
             data_len = 2, flags = FMTP_DATA\<rparr>"
  have e: "hton_header ?h = [1, 2, 3, 4, 0, 0, 0, 7, 0, 0, 3, 232, 0, 0, 0, 2, 0, 0, 0, 0]"
    by (simp add: hton_header_def be_bytes_numeral FMTP_DATA_def)
  show ?thesis
    using C3_header_layout [of ?h "[]" "[9, 9]" example_collaborators "fresh_receiver 6"]
    by (simp add: e FMTP_DATA_LEN_eq)
qed






text \<open>
  C7, as stated, fails: the largest payload is 1440 bytes, not 1460, the header is 20
  bytes, not 16, and a header with 1460 bytes of payload is longer than the largest
  packet.
\<close>

theorem C7_payload_1460_counterexample:
  "FMTP_DATA_LEN \<noteq> 1460 \<and> FMTP_HLEN \<noteq> 16 \<and> FMTP_PACKET_LEN < packet_len 1460 \<and>
   FMTP_DATA_LEN \<noteq> FMTP_PACKET_LEN - 16"
  by (simp add: FMTP_DATA_LEN_eq FMTP_HLEN_eq packet_len_def FMTP_PACKET_LEN_def)

text \<open>
  C7, amended: every FMTP packet is at most \<open>FMTP_PACKET_LEN\<close> = 1460 bytes (and
  \<open>UDP_FMTP_PACKET_LEN\<close> = 1460 over UDP), a 20-byte header plus a payload of at most
  \<open>FMTP_DATA_LEN\<close> = 1460 - 20 = 1440 bytes (\<open>UDP_FMTP_DATA_LEN\<close> = 1200 - 20 = 1180
  over UDP): a header with \<open>n\<close> bytes of payload fits the packet length exactly when
  \<open>n\<close> is at most \<open>FMTP_DATA_LEN\<close>. The reader accepts a packet only if its length
  field \<open>data_len\<close> is at most \<open>FMTP_PACKET_LEN\<close> - 20 and is the number of bytes that
  follow the header, so that an accepted packet has at most 1460 bytes; a packet whose
  \<open>data_len\<close> exceeds this limit is rejected with the error of a payload that is too
  large.
\<close>

theorem C7_packet_length:
  "FMTP_PACKET_LEN = 1460 \<and> FMTP_HLEN = 20 \<and> FMTP_DATA_LEN = 1440 \<and>
   FMTP_HLEN + FMTP_DATA_LEN = FMTP_PACKET_LEN \<and>
   UDP_FMTP_PACKET_LEN = 1460 \<and> UDP_FMTP_HLEN = 20 \<and> UDP_FMTP_DATA_LEN = 1180 \<and>
   (packet_len n \<le> FMTP_PACKET_LEN) = (int n \<le> FMTP_DATA_LEN) \<and>
   (decodeHeader packet = Inr (header, payload) \<longrightarrow>
      int (length packet) = packet_len (length payload) \<and>
      int (length packet) \<le> FMTP_PACKET_LEN \<and>
      uint (data_len header) = int (length payload) \<and>
      uint (data_len header) \<le> FMTP_PACKET_LEN - FMTP_HLEN) \<and>
   (mcastHandler_packet c packet s = Inr s' \<longrightarrow>
      int (length packet) \<le> FMTP_PACKET_LEN \<and>
      uint (data_len (ntoh_header (take (nat FMTP_HLEN) packet))) \<le> FMTP_PACKET_LEN - FMTP_HLEN) \<and>
   (FMTP_HLEN \<le> int (length packet) \<and>
    FMTP_PACKET_LEN - FMTP_HLEN < uint (data_len (ntoh_header (take (nat FMTP_HLEN) packet))) \<longrightarrow>
      decodeHeader packet = Inl PayloadTooLarge \<and>
      mcastHandler_packet c packet s = Inl PayloadTooLarge)"
proof -
  have c1: "FMTP_PACKET_LEN = 1460" by (simp add: FMTP_PACKET_LEN_def)
  have c2: "FMTP_HLEN = 20" by (rule FMTP_HLEN_eq)
  have c3: "FMTP_DATA_LEN = 1440" by (rule FMTP_DATA_LEN_eq)
  have c4: "FMTP_HLEN + FMTP_DATA_LEN = FMTP_PACKET_LEN"
    by (simp add: FMTP_HLEN_eq FMTP_DATA_LEN_eq FMTP_PACKET_LEN_def)
  have c5: "UDP_FMTP_PACKET_LEN = 1460" by (simp add: UDP_FMTP_PACKET_LEN_def)
  have c6: "UDP_FMTP_HLEN = 20" by (simp add: UDP_FMTP_HLEN_def sizeof_FMTP_HEADER_eq)
  have c7: "UDP_FMTP_DATA_LEN = 1180" by (simp add: UDP_FMTP_DATA_LEN_def sizeof_FMTP_HEADER_eq)
  have acc: "decodeHeader packet = Inr (header, payload) \<longrightarrow>
      int (length packet) = packet_len (length payload) \<and>
      int (length packet) \<le> FMTP_PACKET_LEN \<and>
      uint (data_len header) = int (length payload) \<and>
      uint (data_len header) \<le> FMTP_PACKET_LEN - FMTP_HLEN"
    using decodeHeader_Inr [of packet header payload]
    by (auto simp: packet_len_def FMTP_HLEN_eq FMTP_DATA_LEN_eq FMTP_PACKET_LEN_def)
  have turn: "mcastHandler_packet c packet s = Inr s' \<longrightarrow>
      int (length packet) \<le> FMTP_PACKET_LEN \<and>
      uint (data_len (ntoh_header (take (nat FMTP_HLEN) packet))) \<le> FMTP_PACKET_LEN - FMTP_HLEN"
    by (auto simp: mcastHandler_packet_def decodeHeader_cases FMTP_HLEN_eq FMTP_DATA_LEN_eq
          FMTP_PACKET_LEN_def split: if_splits)
  have rej: "FMTP_HLEN \<le> int (length packet) \<and>
    FMTP_PACKET_LEN - FMTP_HLEN < uint (data_len (ntoh_header (take (nat FMTP_HLEN) packet))) \<longrightarrow>
      decodeHeader packet = Inl PayloadTooLarge \<and>
      mcastHandler_packet c packet s = Inl PayloadTooLarge"
    by (auto simp: mcastHandler_packet_def decodeHeader_cases FMTP_HLEN_eq FMTP_DATA_LEN_eq
          FMTP_PACKET_LEN_def)
  have fit: "(packet_len n \<le> FMTP_PACKET_LEN) = (int n \<le> FMTP_DATA_LEN)"
    by (auto simp: packet_len_def FMTP_HLEN_eq FMTP_DATA_LEN_eq FMTP_PACKET_LEN_def)
  show ?thesis
    using c1 c2 c3 c4 c5 c6 c7 fit acc turn rej by blast
qed

theorem C7_packet_length_witness:
  "mcastHandler_packet example_collaborators
     [0, 0, 0, 0, 0, 0, 0, 7, 0, 0, 0, 0, 0, 0, 5, 161, 0, 0, 0, 0] (fresh_receiver 6) =
     Inl PayloadTooLarge \<and>
   decodeHeader [0, 0, 0, 0, 0, 0, 0, 7, 0, 0, 0, 0, 0, 0, 0, 2, 0, 0, 0, 0, 9, 9] =
     Inr (mk_header 7 0 2 FMTP_DATA, [9, 9]) \<and>
   uint (data_len (mk_header 7 0 2 FMTP_DATA)) \<le> FMTP_PACKET_LEN - FMTP_HLEN"
proof -
  let ?big = "[0, 0, 0, 0, 0, 0, 0, 7, 0, 0, 0, 0, 0, 0, 5, 161, 0, 0, 0, 0] :: byte list"
  let ?ok = "[0, 0, 0, 0, 0, 0, 0, 7, 0, 0, 0, 0, 0, 0, 0, 2, 0, 0, 0, 0, 9, 9] :: byte list"
  have b: "FMTP_HLEN \<le> int (length ?big) \<and>
           FMTP_PACKET_LEN - FMTP_HLEN < uint (data_len (ntoh_header (take (nat FMTP_HLEN) ?big)))"
    by (simp add: FMTP_HLEN_eq FMTP_PACKET_LEN_def ntoh_header_def be_word_def slice_def)
  have d: "decodeHeader ?ok = Inr (mk_header 7 0 2 FMTP_DATA, [9, 9])"
    by (simp add: decodeHeader_cases FMTP_HLEN_eq FMTP_DATA_LEN_eq ntoh_header_def be_word_def
          slice_def mk_header_def FMTP_DATA_def)
  have "mcastHandler_packet example_collaborators ?big (fresh_receiver 6) = Inl PayloadTooLarge"
    using C7_packet_length [of 0 ?big "mk_header 7 0 2 FMTP_DATA" "[9, 9]" example_collaborators
        "fresh_receiver 6" "fresh_receiver 6"] b
    by blast
  moreover have "uint (data_len (mk_header 7 0 2 FMTP_DATA)) \<le> FMTP_PACKET_LEN - FMTP_HLEN"
    using C7_packet_length [of 0 ?ok "mk_header 7 0 2 FMTP_DATA" "[9, 9]" example_collaborators
        "fresh_receiver 6" "fresh_receiver 6"] d
    by blast
  ultimately show ?thesis using d by blast
qed

section \<open>Results about the construction of the receiver\<close>

text \<open>
  C9, as stated, fails: a call with only the two addresses and the two ports constructs
  a receiver, with the notifier \<open>NULL\<close> and the interface address "0.0.0.0".
\<close>

theorem C9_all_required_counterexample:
  "fmtpRecvv3_ctor [StrArg ''10.0.0.1'', PortArg 38800, StrArg ''224.0.0.1'', PortArg 1] =
     Some \<lparr>p_tcpAddr = ''10.0.0.1'', p_tcpPort = 38800, p_mcastAddr = ''224.0.0.1'',
           p_mcastPort = 1, p_notifier = None, p_ifAddr = ''0.0.0.0''\<rparr>"
  by simp

lemma fmtpRecvv3_ctor_cases:
  assumes "fmtpRecvv3_ctor args = Some c"
  shows "(\<exists>ta tp ma mp. args = [StrArg ta, PortArg tp, StrArg ma, PortArg mp] \<and>
            c = \<lparr>p_tcpAddr = ta, p_tcpPort = tp, p_mcastAddr = ma, p_mcastPort = mp,
                  p_notifier = None, p_ifAddr = ''0.0.0.0''\<rparr>) \<or>
         (\<exists>ta tp ma mp n. args = [StrArg ta, PortArg tp, StrArg ma, PortArg mp, ProxyArg n] \<and>
            c = \<lparr>p_tcpAddr = ta, p_tcpPort = tp, p_mcastAddr = ma, p_mcastPort = mp,
                  p_notifier = n, p_ifAddr = ''0.0.0.0''\<rparr>) \<or>
         (\<exists>ta tp ma mp n ia.
            args = [StrArg ta, PortArg tp, StrArg ma, PortArg mp, ProxyArg n, StrArg ia] \<and>
            c = \<lparr>p_tcpAddr = ta, p_tcpPort = tp, p_mcastAddr = ma, p_mcastPort = mp,
                  p_notifier = n, p_ifAddr = ia\<rparr>)"
  using assms by (induction args rule: fmtpRecvv3_ctor.induct) auto

text \<open>
  C9, amended: constructing a receiver requires the sender TCP address and port and the
  multicast group address and port, in this order; the notifier and the local interface
  address may be left out, and then the notifier is \<open>NULL\<close> and the interface address
  is "0.0.0.0". No construction succeeds with fewer than these four arguments.
\<close>

theorem C9_ctor_required_and_defaults:
  assumes "fmtpRecvv3_ctor args = Some c"
  shows "4 \<le> length args \<and> length args \<le> 6 \<and>
         take 4 args = [StrArg (p_tcpAddr c), PortArg (p_tcpPort c),
                        StrArg (p_mcastAddr c), PortArg (p_mcastPort c)] \<and>
         (length args = 4 \<longrightarrow> p_notifier c = None) \<and>
         (length args < 6 \<longrightarrow> p_ifAddr c = ''0.0.0.0'') \<and>
         (4 < length args \<longrightarrow> args ! 4 = ProxyArg (p_notifier c)) \<and>
         (length args = 6 \<longrightarrow> args ! 5 = StrArg (p_ifAddr c))"
  using fmtpRecvv3_ctor_cases [OF assms] by auto

theorem C9_ctor_required_and_defaults_witness:
  "fmtpRecvv3_ctor [StrArg ''10.0.0.1'', PortArg 38800, StrArg ''224.0.0.1'', PortArg 1,
                    ProxyArg (Some 7)] \<noteq> None \<and>
   p_ifAddr (the (fmtpRecvv3_ctor [StrArg ''10.0.0.1'', PortArg 38800, StrArg ''224.0.0.1'',
                    PortArg 1, ProxyArg (Some 7)])) = ''0.0.0.0'' \<and>
   p_notifier (the (fmtpRecvv3_ctor [StrArg ''10.0.0.1'', PortArg 38800, StrArg ''224.0.0.1'',
                    PortArg 1, ProxyArg (Some 7)])) = Some 7"
proof -
  let ?args = "[StrArg ''10.0.0.1'', PortArg 38800, StrArg ''224.0.0.1'', PortArg 1,
                ProxyArg (Some 7)]"
  obtain c where c: "fmtpRecvv3_ctor ?args = Some c"
    by simp
  from C9_ctor_required_and_defaults [OF c]
  have "p_ifAddr c = ''0.0.0.0''" and "?args ! 4 = ProxyArg (p_notifier c)"
    by simp_all
  with c show ?thesis
    by simp
qed

section \<open>Results about the order of product indices\<close>





lemma foldl_upt_Suc:
  "foldl f s [0..<Suc n] = foldl (\<lambda>s' j. f s' (Suc j)) (f s 0) [0..<n]"
proof -
  have "[0..<Suc n] = 0 # map Suc [0..<n]"
    by (simp only: map_Suc_upt upt_conv_Cons [of 0 "Suc n"])
  then show ?thesis
    by (simp add: foldl_map)
qed

lemma requestMissingBops_foldl:
  "unat (openright - openleft - 1) = n \<Longrightarrow>
   requestMissingBops openleft openright s =
     foldl (\<lambda>s' j. requestMissingBop (openleft + 1 + word_of_nat j) s') s [0..<n]"
proof (induction n arbitrary: openleft s)
  case 0
  then have "openright - openleft - 1 = 0"
    by (simp add: unat_eq_0)
  then have "openleft + 1 = openright"
    by (simp add: algebra_simps)
  then show ?case
    by (simp add: requestMissingBops.simps)
next
  case (Suc n)
  have ne: "openleft + 1 \<noteq> openright"
  proof
    assume "openleft + 1 = openright"
    then have "openright - openleft - 1 = 0"
      by (simp add: algebra_simps)
    with Suc.prems show False
      by simp
  qed
  have nz: "openright - openleft - 1 \<noteq> 0"
    using Suc.prems by auto
  have "openright - (openleft + 1) - 1 = (openright - openleft - 1) - 1"
    by simp
  then have "unat (openright - (openleft + 1) - 1) = unat (openright - openleft - 1) - 1"
    using unat_minus_one [OF nz] by simp
  then have m: "unat (openright - (openleft + 1) - 1) = n"
    using Suc.prems by simp
  have "requestMissingBops openleft openright s =
        requestMissingBops (openleft + 1) openright (requestMissingBop (openleft + 1) s)"
    using ne by (subst requestMissingBops.simps) simp
  also have "\<dots> = foldl (\<lambda>s' j. requestMissingBop (openleft + 1 + 1 + word_of_nat j) s')
                     (requestMissingBop (openleft + 1) s) [0..<n]"
    by (rule Suc.IH [OF m])
  also have "\<dots> = foldl (\<lambda>s' j. requestMissingBop (openleft + 1 + word_of_nat j) s') s
                     [0..<Suc n]"
    by (simp only: foldl_upt_Suc) (simp add: algebra_simps)
  finally show ?case .
qed







section \<open>Results about data before the BOP\<close>

lemma requestMissingBop_frame [simp]:
  "trackermap (requestMissingBop q s) = trackermap s"
  "prodidx_mcast (requestMissingBop q s) = prodidx_mcast s"
  "EOPmap (requestMissingBop q s) = EOPmap s"
  "delivered (requestMissingBop q s) = delivered s"
  "missed (requestMissingBop q s) = missed s"
  "cancelled (requestMissingBop q s) = cancelled s"
  by (simp_all add: requestMissingBop_def pushMissingBopReq_def addUnrqBOPinSet_def)

lemma finished_requestMissingBop [simp]:
  "finished (requestMissingBop q s) x = finished s x"
  by (simp add: finished_def)



lemma requestMissingBop_foldl_frame [simp]:
  "trackermap (foldl (\<lambda>s' j. requestMissingBop (f j) s') s js) = trackermap s"
  "finished (foldl (\<lambda>s' j. requestMissingBop (f j) s') s js) x = finished s x"
  by (induction js arbitrary: s) simp_all


lemma trackermap_requestMissingBops [simp]:
  "trackermap (requestMissingBops l r s) = trackermap s"
  by (simp add: requestMissingBops_foldl [OF refl])




lemma dropBeforeBOP_frame [simp]:
  "trackermap (dropBeforeBOP retx p s) = trackermap s"
  by (simp add: dropBeforeBOP_def requestMissingBopsInclusive_def)

lemma deliverProduct_trackermap [simp]:
  "trackermap (deliverProduct p s) = (trackermap s)(p := None)"
  by (simp add: deliverProduct_def Let_def clearEOPStatus_def split: option.splits)

lemma trackermap_pushMissingDataReqs [simp]:
  "trackermap (foldl (\<lambda>s' j. pushMissingDataReq p (f j) len s') s js) = trackermap s"
  by (induction js arbitrary: s) (simp_all add: pushMissingDataReq_def)

lemma requestAnyMissingData_None [simp]:
  "(trackermap (requestAnyMissingData p i s) x = None) = (trackermap s x = None)"
  by (auto simp: requestAnyMissingData_def Let_def split: option.splits)

lemma setEOPStatus_trackermap [simp]: "trackermap (setEOPStatus p s) = trackermap s"
  by (simp add: setEOPStatus_def)















lemma replicate_numeral: "replicate (numeral k) x = x # replicate (pred_numeral k) x"
  by (simp add: numeral_eq_Suc)

lemma list_update_Cons_numeral: "(x # xs)[numeral k := y] = x # xs[pred_numeral k := y]"
  by (simp add: numeral_eq_Suc)

lemmas tracker_defs =
  step_def keepOnError_def on_mcast_packet_def on_retx_packet_def
  mcastBOPHandler_def retxBOPHandler_def BOPHandler_def recvMemData_def retxDataHandler_def
  dataHandler_def mcastEOPHandler_def retxEOPHandler_def EOPHandler_def dropBeforeBOP_def
  requestMissingBopsExclusive_def requestMissingBopsInclusive_def requestMissingBops.simps
  requestMissingBop_def addUnrqBOPinSet_def pushMissingBopReq_def finished_def
  prodindex_after_def rmMisBOPinSet_def initEOPStatus_def setEOPStatus_def
  clearEOPStatus_def getEOPStatus_def deliverProduct_def requestAnyMissingData_def
  pushMissingDataReq_def
  missing_segments_def copy_payload_def valid_seqnum_def segments_def
  on_retx_end_def on_timer_expired_def sendRetxEnd_def shutdown_def
  example_collaborators_def example_parseBOP_def mk_header_def be_word_def slice_def
  FMTP_flag_defs fresh_receiver_def Let_def replicate_numeral list_update_Cons_numeral




section \<open>The seed scenarios of the spec, run on the tracker\<close>

text \<open>
  Scenario 1 (all-clean delivery): the BOP of product 1 with three segments, its three
  data packets and its EOP give one delivery and no retransmission request.
\<close>

lemma scenario_all_clean_delivery:
  "run example_collaborators
     [McastPacket (mk_header 1 0 6 FMTP_BOF) [0, 0, 0, 3, 0, 1],
      McastPacket (mk_header 1 0 1 FMTP_DATA) [10],
      McastPacket (mk_header 1 1 1 FMTP_DATA) [11],
      McastPacket (mk_header 1 2 1 FMTP_DATA) [12],
      McastPacket (mk_header 1 0 0 FMTP_EOF) []] (fresh_receiver 0) =
   (fresh_receiver 1)\<lparr>delivered := [1]\<rparr>"
  by (simp add: tracker_defs)

text \<open>
  Scenario 3 (BOP loss): data of product 3 before its BOP requests the BOP and is
  dropped; the BOP, the retransmitted data and the EOP then deliver the product.
\<close>

lemma scenario_BOP_loss:
  "run example_collaborators
     [McastPacket (mk_header 3 0 1 FMTP_DATA) [10],
      McastPacket (mk_header 3 0 6 FMTP_BOF) [0, 0, 0, 1, 0, 1],
      RetxPacket (mk_header 3 0 1 FMTP_DATA) [10],
      McastPacket (mk_header 3 0 0 FMTP_EOF) []] (fresh_receiver 2) =
   (fresh_receiver 3)\<lparr>msgqueue := [BOP_REQ 3], delivered := [3]\<rparr>"
  by (simp add: tracker_defs)

text \<open>
  Scenario 5 (index gap): after product 5, the BOP of product 8 enqueues the BOP-REQs of
  products 6 and 7, in this order.
\<close>

lemma scenario_index_gap:
  "msgqueue (run example_collaborators
     [McastPacket (mk_header 8 0 6 FMTP_BOF) [0, 0, 0, 3, 0, 1]] (fresh_receiver 5)) =
   [BOP_REQ 6, BOP_REQ 7]"
  by (simp add: tracker_defs)

end
